theory Spec2Isabelle
  imports Main "HOL-Library.AList"
begin

section \<open>Line Decoder (server/src/index.ts, class LineDecoder)\<close>

text \<open>
  A JavaScript string is a sequence of UTF-16 code units. The decoder only compares code
  units (with the line feed, with the white space characters) and never computes with
  them, so a code unit is modelled by its number. \<open>js\<close> turns an ASCII literal into such
  a sequence, so that the examples can be written as text.
\<close>

type_synonym code_unit = nat
type_synonym jsstring = "code_unit list"

definition js :: "string \<Rightarrow> jsstring" where
  "js s = map of_char s"

definition LF :: code_unit where
  "LF = 10"

text \<open>
  \<open>String.prototype.split\<close> with a separator of one code unit: the pieces between the
  separators, in order; the result is never empty (\<open>"".split("\n")\<close> is \<open>[""]\<close>).
\<close>

fun split_on :: "'a \<Rightarrow> 'a list \<Rightarrow> 'a list list" where
  "split_on sep [] = [[]]"
| "split_on sep (c # cs) =
     (if c = sep then [] # split_on sep cs
      else (c # hd (split_on sep cs)) # tl (split_on sep cs))"

text \<open>
  \<open>String.prototype.trim\<close> removes leading and trailing code units that are WhiteSpace
  or LineTerminator in ECMAScript: TAB, LF, VT, FF, CR, SP, NBSP, U+1680, U+2000 to U+200A,
  U+2028, U+2029, U+202F, U+205F, U+3000 and U+FEFF.
\<close>

definition is_white_space :: "code_unit \<Rightarrow> bool" where
  "is_white_space c \<longleftrightarrow>
     c \<in> set [0x9, 0xA, 0xB, 0xC, 0xD, 0x20, 0xA0, 0x1680, 0x2028, 0x2029, 0x202F,
       0x205F, 0x3000, 0xFEFF] \<or> (0x2000 \<le> c \<and> c \<le> 0x200A)"

definition trim :: "jsstring \<Rightarrow> jsstring" where
  "trim s = rev (dropWhile is_white_space (rev (dropWhile is_white_space s)))"

text \<open>
  What one pushed line makes the decoder do: call \<open>onmessage\<close> with the parsed value
  (\<open>Message\<close>), or write the parse error to \<open>console.error\<close> (\<open>ParseError\<close>).
  \<open>JSON.parse\<close> is the parameter \<open>parse\<close>; \<open>None\<close> is its SyntaxError. (What the
  handler does with the value, and an exception it may throw into the same \<open>catch\<close>, is
  not part of the decoder: the model records that the handler was called.)
\<close>

datatype 'm event = Message 'm | ParseError jsstring

text \<open>The body of \<open>for (const line of lines)\<close>.\<close>

fun handle_lines :: "(jsstring \<Rightarrow> 'm option) \<Rightarrow> jsstring list \<Rightarrow> 'm event list" where
  "handle_lines parse [] = []"
| "handle_lines parse (line # rest) =
     (if trim line = [] then handle_lines parse rest
      else (case parse line of
              Some m \<Rightarrow> Message m # handle_lines parse rest
            | None \<Rightarrow> ParseError line # handle_lines parse rest))"

text \<open>
  The decoder's state: its private \<open>buffer\<close>, and the record \<open>log\<close> of what it has
  done so far (handler calls and error reports, oldest first).
\<close>

record 'm LineDecoder =
  buffer :: jsstring
  log :: "'m event list"

definition new_decoder :: "'m LineDecoder" where
  "new_decoder = \<lparr>buffer = [], log = []\<rparr>"

text \<open>
  \<open>push(chunk)\<close>: \<open>this.buffer += chunk\<close>, split at line feeds, \<open>lines.pop() || ""\<close>
  becomes the new buffer (\<open>pop\<close> of an empty array gives \<open>undefined\<close>, hence \<open>""\<close>), the
  other pieces are handled in order.
\<close>

definition push :: "(jsstring \<Rightarrow> 'm option) \<Rightarrow> 'm LineDecoder \<Rightarrow> jsstring \<Rightarrow> 'm LineDecoder" where
  "push parse d chunk =
     (let lines = split_on LF (buffer d @ chunk);
          popped = (if lines = [] then [] else last lines);
          lines = butlast lines
      in \<lparr>buffer = popped, log = log d @ handle_lines parse lines\<rparr>)"

text \<open>The messages handed to \<open>onmessage\<close>, in order.\<close>

fun messages :: "'m event list \<Rightarrow> 'm list" where
  "messages [] = []"
| "messages (Message m # es) = m # messages es"
| "messages (ParseError l # es) = messages es"

text \<open>
  A stand-in for \<open>JSON.parse\<close> on the inputs of the examples: it knows the two objects
  \<open>{"a":1}\<close> and \<open>{"a":2}\<close> (as the value of the field) and rejects everything else.
\<close>

definition example_parse :: "jsstring \<Rightarrow> nat option" where
  "example_parse s =
     (if s = js ''{\"a\":1}'' then Some 1 else if s = js ''{\"a\":2}'' then Some 2 else None)"

section \<open>Remote Transport Factory (server/src/index.ts, createTransport)\<close>

text \<open>
  \<open>req.headers[key]\<close> is \<open>string | string[] | undefined\<close>: a map from header names to one
  value or an array of values. The outbound \<open>headers\<close> object is an association list in
  insertion order; a property of it holds a string or, when the last element of an empty
  array was read, \<open>undefined\<close>.
\<close>

datatype header_value = Single string | Multi "string list"

datatype out_value = Str string | Undefined

type_synonym in_headers = "string \<rightharpoonup> header_value"
type_synonym out_headers = "(string \<times> out_value) list"

definition SSE_HEADERS_PASSTHROUGH :: "string list" where
  "SSE_HEADERS_PASSTHROUGH = [''authorization'']"

definition STREAMABLE_HTTP_HEADERS_PASSTHROUGH :: "string list" where
  "STREAMABLE_HTTP_HEADERS_PASSTHROUGH = [''authorization'', ''mcp-session-id'', ''last-event-id'']"

text \<open>\<open>Array.isArray(value) ? value[value.length - 1] : value\<close>\<close>

definition last_or_value :: "header_value \<Rightarrow> out_value" where
  "last_or_value v =
     (case v of
        Multi vs \<Rightarrow> (if vs = [] then Undefined else Str (last vs))
      | Single s \<Rightarrow> Str s)"

text \<open>
  The loop \<open>for (const key of ...PASSTHROUGH)\<close>: a key the request does not have is
  skipped, any other is assigned in the outbound object.
\<close>

fun passthrough :: "string list \<Rightarrow> in_headers \<Rightarrow> out_headers \<Rightarrow> out_headers" where
  "passthrough [] inbound out = out"
| "passthrough (key # keys) inbound out =
     (case inbound key of
        None \<Rightarrow> passthrough keys inbound out
      | Some v \<Rightarrow> passthrough keys inbound (AList.update key (last_or_value v) out))"

definition sse_headers :: "in_headers \<Rightarrow> out_headers" where
  "sse_headers inbound =
     passthrough SSE_HEADERS_PASSTHROUGH inbound [(''Accept'', Str ''text/event-stream'')]"

definition streamable_http_headers :: "in_headers \<Rightarrow> out_headers" where
  "streamable_http_headers inbound =
     passthrough STREAMABLE_HTTP_HEADERS_PASSTHROUGH inbound
       [(''Accept'', Str ''text/event-stream, application/json'')]"





text \<open>
  The request as the handlers read it: its headers and its query parameters. Exceptions
  are values: an \<open>SseError\<close> with its \<open>code\<close>, or any other error with its message.
\<close>

record request =
  headers :: in_headers
  query :: "string \<rightharpoonup> string"

datatype js_error = SseError int | Error string

text \<open>
  The transports of the proxy. The two client transports are built by \<open>createTransport\<close>
  from a URL and the outbound headers; the server transports face the browser (the SSE one
  draws its session id when it is constructed); the last one stands for the object
  literal that \<open>/stdio\<close> builds around a spawned child process.
\<close>

datatype transport =
    SSEClientTransport string out_headers
  | StreamableHTTPClientTransport string out_headers
  | SSEServerTransport string
  | StreamableHTTPServerTransport
  | ChildProcessTransport nat

text \<open>
  What the SDK and the platform decide: whether \<open>new URL(url)\<close> accepts the text, and
  whether \<open>transport.start()\<close> returns or throws.
\<close>

record sdk =
  url_ok :: "string \<Rightarrow> bool"
  start :: "transport \<Rightarrow> js_error option"

definition createTransport :: "sdk \<Rightarrow> request \<Rightarrow> js_error + transport" where
  "createTransport env req =
     (let transportType = query req ''transportType'' in
      if transportType = Some ''sse'' then
        (let out = sse_headers (headers req) in
         case query req ''url'' of
           None \<Rightarrow> Inl (Error ''Invalid URL'')
         | Some url \<Rightarrow>
             if \<not> url_ok env url then Inl (Error ''Invalid URL'')
             else (let transport = SSEClientTransport url out in
                   case start env transport of
                     Some e \<Rightarrow> Inl e
                   | None \<Rightarrow> Inr transport))
      else if transportType = Some ''streamable-http'' then
        (let out = streamable_http_headers (headers req) in
         case query req ''url'' of
           None \<Rightarrow> Inl (Error ''Invalid URL'')
         | Some url \<Rightarrow>
             if \<not> url_ok env url then Inl (Error ''Invalid URL'')
             else (let transport = StreamableHTTPClientTransport url out in
                   case start env transport of
                     Some e \<Rightarrow> Inl e
                   | None \<Rightarrow> Inr transport))
      else Inl (Error ''Invalid transport type specified''))"

section \<open>Session registry and HTTP surface (server/src/index.ts, the route handlers)\<close>

text \<open>
  The two module-level maps, and the life of the transports of a session. A transport has
  one \<open>onclose\<close> property, which holds one handler at a time: assigning it replaces what
  was there (index.ts builds such an object at lines 266 to 278 and calls the property at
  lines 291 to 295). The handlers are the closures of index.ts (\<open>/mcp\<close> and \<open>/sse\<close>
  delete the two entries, \<open>/stdio\<close> deletes them and calls
  \<open>backingServerTransport.close()\<close>) and the pump's own. \<open>forwarding\<close> says whether the
  pump forwards for the pair, \<open>is_open\<close> which transports are open, \<open>close_calls\<close>
  which \<open>close()\<close> calls were made, in order.
\<close>

datatype side = Client | Agent

datatype handler = DeleteBoth | DeleteBothAndClose | PumpHandler

record proxy =
  webAppTransports :: "string \<rightharpoonup> transport"
  backingServerTransports :: "string \<rightharpoonup> transport"
  onclose :: "string \<Rightarrow> side \<Rightarrow> handler option"
  forwarding :: "string \<Rightarrow> bool"
  is_open :: "string \<Rightarrow> side \<Rightarrow> bool"
  close_calls :: "(string \<times> side) list"

definition empty_proxy :: proxy where
  "empty_proxy =
     \<lparr>webAppTransports = Map.empty, backingServerTransports = Map.empty,
      onclose = (\<lambda>_ _. None), forwarding = (\<lambda>_. False), is_open = (\<lambda>_ _. False),
      close_calls = []\<rparr>"

text \<open>The registry holds whole pairs: the two maps have the same session ids.\<close>

definition paired :: "proxy \<Rightarrow> bool" where
  "paired s \<longleftrightarrow> dom (webAppTransports s) = dom (backingServerTransports s)"

text \<open>What a handler does to the response, or to the process.\<close>

datatype response =
    Status nat
  | HandledByTransport
  | EventStream
  | NothingSent
  | UnhandledRejection

text \<open>
  Modelled from the spec: \<open>mcpProxy\<close> (server/src/mcpProxy.js) is not among the sources.
  Section 4.5 of the spec: the pump forwards between the two transports of a pair for the
  pair's whole lifetime, and reacts when either side raises \<open>onclose\<close>. It is handed the
  two transports and nothing else, and the notification a transport offers is its
  \<open>onclose\<close> property: calling the pump starts the forwarding and assigns the pump's
  handler to that property of both transports.
\<close>

definition mcpProxy :: "string \<Rightarrow> proxy \<Rightarrow> proxy" where
  "mcpProxy sessionId s =
     s\<lparr>forwarding := (forwarding s)(sessionId := True),
       onclose := (onclose s)(sessionId := (\<lambda>_. Some PumpHandler))\<rparr>"

definition other_side :: "side \<Rightarrow> side" where
  "other_side sd = (case sd of Client \<Rightarrow> Agent | Agent \<Rightarrow> Client)"

text \<open>\<open>webAppTransports.delete(sessionId); backingServerTransports.delete(sessionId)\<close>\<close>

definition delete_both :: "string \<Rightarrow> proxy \<Rightarrow> proxy" where
  "delete_both sessionId s =
     s\<lparr>webAppTransports := (webAppTransports s)(sessionId := None),
       backingServerTransports := (backingServerTransports s)(sessionId := None)\<rparr>"

definition open_count :: "proxy \<Rightarrow> string \<Rightarrow> nat" where
  "open_count s sessionId =
     (if is_open s sessionId Client then 1 else 0) + (if is_open s sessionId Agent then 1 else 0)"

text \<open>
  \<open>run_onclose\<close>: the transport on side \<open>sd\<close> raises \<open>onclose\<close>, and the handler that its
  property holds runs. The closures of index.ts delete the two entries, the one of
  \<open>/stdio\<close> then calls \<open>backingServerTransport.close()\<close>; a property that nothing was
  assigned to does nothing. The pump's handler is modelled from the spec (section 4.5): it
  stops forwarding in both directions and closes the other side's transport if it is still
  open; the teardown it triggers is the closure of index.ts, when that is what the
  browser-facing transport holds on being closed.

  \<open>close_transport\<close>: \<open>transport.close()\<close>. The call is recorded; a transport that was
  open is open no longer and raises \<open>onclose\<close> (the child killed by \<open>/stdio\<close>'s
  \<open>close\<close> exits, and its exit calls the property).
\<close>

function run_onclose :: "side \<Rightarrow> string \<Rightarrow> proxy \<Rightarrow> proxy"
  and close_transport :: "side \<Rightarrow> string \<Rightarrow> proxy \<Rightarrow> proxy" where
  "run_onclose sd sessionId s =
     (case onclose s sessionId sd of
        None \<Rightarrow> s
      | Some DeleteBoth \<Rightarrow> delete_both sessionId s
      | Some DeleteBothAndClose \<Rightarrow> close_transport Agent sessionId (delete_both sessionId s)
      | Some PumpHandler \<Rightarrow>
          (if \<not> forwarding s sessionId then s
           else if \<not> is_open s sessionId (other_side sd)
             then s\<lparr>forwarding := (forwarding s)(sessionId := False)\<rparr>
           else close_transport (other_side sd) sessionId
                  (s\<lparr>forwarding := (forwarding s)(sessionId := False)\<rparr>)))"
| "close_transport sd sessionId s =
     (if \<not> is_open s sessionId sd
      then s\<lparr>close_calls := close_calls s @ [(sessionId, sd)]\<rparr>
      else run_onclose sd sessionId
             (s\<lparr>close_calls := close_calls s @ [(sessionId, sd)],
                is_open := (is_open s)(sessionId := (is_open s sessionId)(sd := False))\<rparr>))"
  by pat_completeness auto
termination
  by (relation "measure (\<lambda>x. case x of
         Inl (sd, sid, s) \<Rightarrow> 2 * open_count s sid + 1
       | Inr (sd, sid, s) \<Rightarrow> 2 * open_count s sid)")
     (auto simp: open_count_def delete_both_def, (metis side.exhaust)+)

declare run_onclose.simps [simp del]

declare close_transport.simps [simp del]

text \<open>
  A transport of a session has closed (the browser went away, the remote agent hung up,
  the child exited): it is open no longer and raises \<open>onclose\<close>.
\<close>

definition transport_closed :: "side \<Rightarrow> string \<Rightarrow> proxy \<Rightarrow> proxy" where
  "transport_closed sd sessionId s =
     run_onclose sd sessionId
       (s\<lparr>is_open := (is_open s)(sessionId := (is_open s sessionId)(sd := False))\<rparr>)"

text \<open>
  \<open>app.post("/mcp")\<close>. Without a session id header (\<open>!sessionId\<close>: absent or empty) a
  new session is built: first the backing transport; then the browser-facing transport,
  whose \<open>onsessioninitialized\<close> callback registers the pair, calls the pump (line 196)
  and then assigns the closure to \<open>webAppTransport.onclose\<close> (line 201). \<open>initialized\<close> is the session id the SDK hands to that callback while it
  handles the request, if the request is the handshake. With a session id the request goes
  to the transport registered under it (an array of values is no key of the map). Errors
  that the SDK's \<open>start\<close> and \<open>handleRequest\<close> of the browser-facing transport may
  throw are not modelled.
\<close>

definition mcp_post_new :: "sdk \<Rightarrow> string option \<Rightarrow> proxy \<Rightarrow> request \<Rightarrow> proxy \<times> response" where
  "mcp_post_new env initialized s req =
     (case createTransport env req of
        Inl (SseError code) \<Rightarrow> (if code = 401 then (s, Status 401) else (s, Status 500))
      | Inl (Error msg) \<Rightarrow> (s, Status 500)
      | Inr backingServerTransport \<Rightarrow>
          (case initialized of
             None \<Rightarrow> (s, HandledByTransport)
           | Some newSessionId \<Rightarrow>
               (let s1 = s\<lparr>webAppTransports :=
                              (webAppTransports s)(newSessionId \<mapsto> StreamableHTTPServerTransport),
                            backingServerTransports :=
                              (backingServerTransports s)(newSessionId \<mapsto> backingServerTransport),
                            is_open := (is_open s)(newSessionId := (\<lambda>_. True))\<rparr>;
                    s2 = mcpProxy newSessionId s1;
                    s3 = s2\<lparr>onclose := (onclose s2)
                              (newSessionId := (onclose s2 newSessionId)(Client := Some DeleteBoth))\<rparr>
                in (s3, HandledByTransport))))"

definition mcp_post_existing :: "proxy \<Rightarrow> string option \<Rightarrow> proxy \<times> response" where
  "mcp_post_existing s sessionId =
     (case sessionId of
        None \<Rightarrow> (s, Status 404)
      | Some sid \<Rightarrow>
          (case webAppTransports s sid of
             None \<Rightarrow> (s, Status 404)
           | Some t \<Rightarrow> (s, HandledByTransport)))"

definition mcp_post :: "sdk \<Rightarrow> string option \<Rightarrow> proxy \<Rightarrow> request \<Rightarrow> proxy \<times> response" where
  "mcp_post env initialized s req =
     (case headers req ''mcp-session-id'' of
        None \<Rightarrow> mcp_post_new env initialized s req
      | Some (Single sid) \<Rightarrow>
          (if sid = [] then mcp_post_new env initialized s req
           else mcp_post_existing s (Some sid))
      | Some (Multi vs) \<Rightarrow> mcp_post_existing s None)"

text \<open>
  \<open>app.get("/sse")\<close>. The browser-facing transport is constructed and put into
  \<open>webAppTransports\<close> under its own session id; then the backing transport is built. When
  that succeeds the second entry follows, the closure is assigned to
  \<open>webAppTransport.onclose\<close> (line 348), the stream starts and the pump is called (line
  356). When it throws an \<open>SseError\<close> with code 401 the handler answers 401 and returns;
  any other error is thrown on to the outer \<open>catch\<close>, which logs it. An error of the
  browser-facing transport's own \<open>start\<close> is not modelled.
\<close>

definition sse_get :: "sdk \<Rightarrow> proxy \<Rightarrow> request \<Rightarrow> string \<Rightarrow> proxy \<times> response" where
  "sse_get env s req sessionId =
     (let s1 = s\<lparr>webAppTransports := (webAppTransports s)(sessionId \<mapsto> SSEServerTransport sessionId),
                  is_open := (is_open s)(sessionId := (is_open s sessionId)(Client := True))\<rparr>
      in case createTransport env req of
           Inr backingServerTransport \<Rightarrow>
             (let s2 = s1\<lparr>backingServerTransports :=
                            (backingServerTransports s1)(sessionId \<mapsto> backingServerTransport),
                          is_open := (is_open s1)(sessionId := (is_open s1 sessionId)(Agent := True))\<rparr>;
                  s3 = s2\<lparr>onclose := (onclose s2)
                            (sessionId := (onclose s2 sessionId)(Client := Some DeleteBoth))\<rparr>
              in (mcpProxy sessionId s3, EventStream))
         | Inl (SseError code) \<Rightarrow> (if code = 401 then (s1, Status 401) else (s1, NothingSent))
         | Inl (Error msg) \<Rightarrow> (s1, NothingSent))"

section \<open>Environment of a spawned agent (server/src/index.ts, defaultEnvironment and /stdio)\<close>

text \<open>
  An object spread \<open>{...a, ...b}\<close> is \<open>a ++ b\<close>: the properties of \<open>b\<close> override those of
  \<open>a\<close>. \<open>json_parse\<close> is \<open>JSON.parse\<close> seen through the spread: the own properties of the
  parsed value, or \<open>None\<close> for its SyntaxError. \<open>x ? JSON.parse(x) : {}\<close> does not parse an
  absent or empty text.
\<close>

definition parse_or_empty ::
  "(string \<Rightarrow> (string \<rightharpoonup> 'v) option) \<Rightarrow> string option \<Rightarrow> (string \<rightharpoonup> 'v) option" where
  "parse_or_empty json_parse text =
     (case text of
        None \<Rightarrow> Some Map.empty
      | Some t \<Rightarrow> (if t = [] then Some Map.empty else json_parse t))"

definition defaultEnvironment ::
  "(string \<Rightarrow> (string \<rightharpoonup> 'v) option) \<Rightarrow> (string \<rightharpoonup> 'v) \<Rightarrow> string option \<Rightarrow> (string \<rightharpoonup> 'v) option" where
  "defaultEnvironment json_parse getDefaultEnvironment MCP_ENV_VARS =
     (case parse_or_empty json_parse MCP_ENV_VARS of
        None \<Rightarrow> None
      | Some vars \<Rightarrow> Some (getDefaultEnvironment ++ vars))"

text \<open>
  The \<open>env\<close> that \<open>/stdio\<close> hands to \<open>launchMCPServer\<close>:
  \<open>{ ...process.env, ...defaultEnvironment, ...queryEnv }\<close>.
\<close>

definition stdio_env ::
  "(string \<Rightarrow> (string \<rightharpoonup> 'v) option) \<Rightarrow> (string \<rightharpoonup> 'v) \<Rightarrow> (string \<rightharpoonup> 'v) \<Rightarrow> string option \<Rightarrow> (string \<rightharpoonup> 'v) option" where
  "stdio_env json_parse process_env default_env query_env =
     (case parse_or_empty json_parse query_env of
        None \<Rightarrow> None
      | Some queryEnv \<Rightarrow> Some (process_env ++ default_env ++ queryEnv))"

text \<open>
  The claim's words, for comparison: of the layers that have the key, listed from the
  highest precedence down, the first one gives the value.
\<close>

fun highest_layer :: "('k \<rightharpoonup> 'v) list \<Rightarrow> 'k \<Rightarrow> 'v option" where
  "highest_layer [] k = None"
| "highest_layer (layer # lower) k =
     (case layer k of Some v \<Rightarrow> Some v | None \<Rightarrow> highest_layer lower k)"

text \<open>
  \<open>app.get("/stdio")\<close>. The browser-facing transport is constructed and put into
  \<open>webAppTransports\<close>; then, inside a \<open>try\<close>, the environment is merged and the child is
  launched with the command, the arguments, the merged environment and the server name
  (\<open>launch\<close> stands for \<open>shellParseArgs\<close>, \<open>findActualExecutable\<close> and
  \<open>launchMCPServer\<close>, which may throw), the object around the child becomes the second
  entry (its own \<open>onclose\<close> does nothing), the closure is assigned to
  \<open>webAppTransport.onclose\<close> (line 305), the stream starts and the pump is called (line
  315). Whatever is thrown inside the \<open>try\<close> lands in one \<open>catch\<close>, so the order of the
  steps that may throw does not show; the \<open>catch\<close> calls \<open>webAppTransport.send\<close> with a
  \<open>transport/error\<close> notification and does not await it. The browser-facing transport
  has not been started at that point: \<open>send\<close> rejects, nothing handles the rejection, and
  the process ends.
\<close>

definition serverName :: "request \<Rightarrow> string" where
  "serverName req =
     (case query req ''serverName'' of
        None \<Rightarrow> ''unknown-stdio-server''
      | Some n \<Rightarrow> (if n = [] then ''unknown-stdio-server'' else n))"

definition stdio_get ::
  "(string \<Rightarrow> (string \<rightharpoonup> 'v) option) \<Rightarrow> (string \<rightharpoonup> 'v) \<Rightarrow> (string \<rightharpoonup> 'v) \<Rightarrow>
   (string option \<Rightarrow> string option \<Rightarrow> (string \<rightharpoonup> 'v) \<Rightarrow> string \<Rightarrow> js_error + nat) \<Rightarrow>
   proxy \<Rightarrow> request \<Rightarrow> string \<Rightarrow> proxy \<times> response" where
  "stdio_get json_parse process_env default_env launch s req sessionId =
     (let s1 = s\<lparr>webAppTransports := (webAppTransports s)(sessionId \<mapsto> SSEServerTransport sessionId),
                  is_open := (is_open s)(sessionId := (is_open s sessionId)(Client := True))\<rparr>
      in case stdio_env json_parse process_env default_env (query req ''env'') of
           None \<Rightarrow> (s1, UnhandledRejection)
         | Some env \<Rightarrow>
             (case launch (query req ''command'') (query req ''args'') env (serverName req) of
                Inl e \<Rightarrow> (s1, UnhandledRejection)
              | Inr child \<Rightarrow>
                  (let s2 = s1\<lparr>backingServerTransports :=
                                 (backingServerTransports s1)(sessionId \<mapsto> ChildProcessTransport child),
                               is_open := (is_open s1)(sessionId := (is_open s1 sessionId)(Agent := True))\<rparr>;
                       s3 = s2\<lparr>onclose := (onclose s2)
                                 (sessionId := (onclose s2 sessionId)(Client := Some DeleteBothAndClose))\<rparr>
                   in (mcpProxy sessionId s3, EventStream))))"

section \<open>Port Allocator (server/src/index.ts, findAvailablePort and startServer)\<close>

text \<open>
  What \<open>server.listen(port)\<close> leads to: the listening callback, where
  \<open>server.address().port\<close> is read, or the error event with its \<open>code\<close>. Each port is
  tried at most once, so a function from ports to outcomes describes any environment.
  The trace records the listeners opened and closed by the probing.
\<close>

datatype listen_outcome = Listening nat | ListenError string

datatype probe = Listen nat | Close nat

datatype 'a settled = Resolved 'a | Rejected string

partial_function (option) findAvailablePort ::
  "(nat \<Rightarrow> listen_outcome) \<Rightarrow> nat \<Rightarrow> (probe list \<times> nat settled) option" where
  "findAvailablePort listen startPort =
     (case listen startPort of
        Listening port \<Rightarrow> Some ([Listen startPort, Close startPort], Resolved port)
      | ListenError code \<Rightarrow>
          (if code = ''EADDRINUSE'' then
             Option.bind (findAvailablePort listen (startPort + 1))
               (\<lambda>(trace, result). Some (Listen startPort # trace, result))
           else Some ([Listen startPort], Rejected code)))"

text \<open>
  \<open>startServer\<close>: the port found is bound by the application (\<open>app_listen\<close>, a second
  attempt on the same port); a rejected probe or an error of the application's listener
  ends the process with \<open>process.exit(1)\<close>.
\<close>

datatype server = ListeningOn nat | Exit nat

definition startServer ::
  "(nat \<Rightarrow> listen_outcome) \<Rightarrow> (nat \<Rightarrow> listen_outcome) \<Rightarrow> nat \<Rightarrow> (probe list \<times> server) option" where
  "startServer listen app_listen PORT =
     (case findAvailablePort listen PORT of
        None \<Rightarrow> None
      | Some (trace, Rejected code) \<Rightarrow> Some (trace, Exit 1)
      | Some (trace, Resolved availablePort) \<Rightarrow>
          (case app_listen availablePort of
             Listening port \<Rightarrow> Some (trace, ListeningOn availablePort)
           | ListenError code \<Rightarrow> Some (trace, Exit 1)))"

section \<open>Example inputs\<close>

text \<open>
  A request for a remote agent over SSE with a bearer token and a cookie, and three
  environments: one where the agent accepts the connection, one where it answers 401, one
  where the connection is refused.
\<close>

definition example_request :: request where
  "example_request =
     \<lparr>headers = [''authorization'' \<mapsto> Single ''Bearer t'', ''cookie'' \<mapsto> Single ''id=1''],
      query = [''transportType'' \<mapsto> ''sse'', ''url'' \<mapsto> ''http://agent/sse'']\<rparr>"

definition example_mcp_request :: request where
  "example_mcp_request =
     \<lparr>headers = [''authorization'' \<mapsto> Single ''Bearer t''],
      query = [''transportType'' \<mapsto> ''streamable-http'', ''url'' \<mapsto> ''http://agent/mcp'']\<rparr>"

definition accepting_sdk :: sdk where
  "accepting_sdk = \<lparr>url_ok = (\<lambda>_. True), start = (\<lambda>_. None)\<rparr>"

definition unauthorized_sdk :: sdk where
  "unauthorized_sdk = \<lparr>url_ok = (\<lambda>_. True), start = (\<lambda>_. Some (SseError 401))\<rparr>"

definition refusing_sdk :: sdk where
  "refusing_sdk = \<lparr>url_ok = (\<lambda>_. True), start = (\<lambda>_. Some (Error ''ECONNREFUSED''))\<rparr>"

text \<open>A stand-in for \<open>JSON.parse\<close> on the two environment texts of the examples.\<close>

definition example_json :: "string \<Rightarrow> (string \<rightharpoonup> string) option" where
  "example_json t =
     (if t = ''{\"HOME\":\"/q\"}'' then Some [''HOME'' \<mapsto> ''/q'']
      else if t = ''{\"HOME\":\"/m\",\"LANG\":\"C\"}'' then Some [''HOME'' \<mapsto> ''/m'', ''LANG'' \<mapsto> ''C'']
      else None)"

text \<open>
  A \<open>/stdio\<close> request with an environment of its own, and a launcher that starts child 7
  when it is handed the command, the arguments, the server name and the environment that
  the example expects, and throws otherwise.
\<close>

definition example_stdio_request :: request where
  "example_stdio_request =
     \<lparr>headers = Map.empty,
      query = [''command'' \<mapsto> ''node'', ''args'' \<mapsto> ''server.js'',
               ''env'' \<mapsto> ''{\"HOME\":\"/q\"}'']\<rparr>"

definition example_launch ::
  "string option \<Rightarrow> string option \<Rightarrow> (string \<rightharpoonup> string) \<Rightarrow> string \<Rightarrow> js_error + nat" where
  "example_launch command args env name =
     (if command = Some ''node'' \<and> args = Some ''server.js'' \<and> name = ''unknown-stdio-server''
         \<and> map env [''HOME'', ''LANG'', ''PATH'', ''TERM'', ''SHELL'']
             = [Some ''/q'', Some ''C'', Some ''/bin'', Some ''xterm'', None]
      then Inr 7 else Inl (Error ''spawn failed''))"

text \<open>Ports 6277 and 6278 are taken, everything else is free; and with 6279 forbidden.\<close>

definition example_listen :: "nat \<Rightarrow> listen_outcome" where
  "example_listen port =
     (if port = 6277 \<or> port = 6278 then ListenError ''EADDRINUSE'' else Listening port)"

definition example_listen_denied :: "nat \<Rightarrow> listen_outcome" where
  "example_listen_denied port =
     (if port = 6277 \<or> port = 6278 then ListenError ''EADDRINUSE''
      else if port = 6279 then ListenError ''EACCES'' else Listening port)"

section \<open>Properties of the Line Decoder\<close>

subsection \<open>Splitting\<close>

lemma split_on_not_Nil: "split_on sep xs \<noteq> []"
  by (induction xs) auto

lemma split_on_no_sep: "sep \<notin> set xs \<Longrightarrow> split_on sep xs = [xs]"
  by (induction xs) auto

lemma split_on_append:
  "split_on sep (xs @ ys) =
     butlast (split_on sep xs) @
     (last (split_on sep xs) @ hd (split_on sep ys)) # tl (split_on sep ys)"
proof (induction xs)
  case Nil
  then show ?case by (cases ys) (auto simp: split_on_not_Nil)
next
  case (Cons a xs)
  then show ?case
    using split_on_not_Nil[of sep xs] split_on_not_Nil[of sep "xs @ ys"]
    by (cases "split_on sep xs") (auto simp: split_on_not_Nil)
qed

lemma last_split_on_no_sep: "sep \<notin> set (last (split_on sep xs))"
proof (induction xs)
  case Nil
  then show ?case by simp
next
  case (Cons a xs)
  then show ?case
    using split_on_not_Nil[of sep xs]
    by (cases "split_on sep xs") (auto split: if_splits)
qed

subsection \<open>One push, and pushes in sequence\<close>

lemma handle_lines_append:
  "handle_lines parse (xs @ ys) = handle_lines parse xs @ handle_lines parse ys"
  by (induction xs) (auto split: option.splits)

lemma handle_lines_Cons:
  "handle_lines parse (l # ls) = handle_lines parse [l] @ handle_lines parse ls"
  by (simp split: option.splits)

lemma split_on_line: "sep \<notin> set l \<Longrightarrow> split_on sep (l @ sep # r) = l # split_on sep r"
  by (induction l) auto

lemma messages_append: "messages (xs @ ys) = messages xs @ messages ys"
  by (induction xs rule: messages.induct) auto

lemma trim_not_Nil: "s \<noteq> [] \<Longrightarrow> \<not> is_white_space (hd s) \<Longrightarrow> trim s \<noteq> []"
  by (cases s) (auto simp: trim_def)

text \<open>Two pushes in a row are one push of the two chunks joined.\<close>

lemma push_push: "push parse (push parse d c1) c2 = push parse d (c1 @ c2)"
proof -
  let ?s1 = "split_on LF (buffer d @ c1)"
  have "split_on LF ((buffer d @ c1) @ c2) =
          butlast ?s1 @ (last ?s1 @ hd (split_on LF c2)) # tl (split_on LF c2)"
    by (rule split_on_append)
  moreover have "split_on LF (last ?s1 @ c2) =
          (last ?s1 @ hd (split_on LF c2)) # tl (split_on LF c2)"
    using split_on_append[of LF "last ?s1" c2]
      split_on_no_sep[OF last_split_on_no_sep[of LF "buffer d @ c1"]]
    by simp
  ultimately show ?thesis
    by (simp add: push_def Let_def split_on_not_Nil handle_lines_append butlast_append)
qed

lemma push_Nil: "LF \<notin> set (buffer d) \<Longrightarrow> push parse d [] = d"
  by (simp add: push_def split_on_no_sep)

lemma buffer_push_no_LF: "LF \<notin> set (buffer (push parse d c))"
  by (simp add: push_def Let_def split_on_not_Nil last_split_on_no_sep)

lemma foldl_push:
  "LF \<notin> set (buffer d) \<Longrightarrow> foldl (push parse) d chunks = push parse d (concat chunks)"
proof (induction chunks arbitrary: d)
  case Nil
  then show ?case by (simp add: push_Nil)
next
  case (Cons c cs)
  have "foldl (push parse) (push parse d c) cs = push parse (push parse d c) (concat cs)"
    by (rule Cons.IH) (rule buffer_push_no_LF)
  then show ?case by (simp add: push_push)
qed

lemma buffer_push_tail:
  assumes "LF \<notin> set tail"
  shows "buffer (push parse d (chunk @ LF # tail)) = tail"
proof -
  have "split_on LF ((buffer d @ chunk) @ LF # tail) =
          butlast (split_on LF (buffer d @ chunk)) @ [last (split_on LF (buffer d @ chunk)), tail]"
    using split_on_append[of LF "buffer d @ chunk" "LF # tail"] assms
    by (simp add: split_on_no_sep)
  then show ?thesis
    by (simp add: push_def)
qed

lemma push_line:
  assumes "LF \<notin> set (buffer d)" and "LF \<notin> set line"
  shows "push parse d (line @ LF # post) =
           push parse \<lparr>buffer = [], log = log d @ handle_lines parse [buffer d @ line]\<rparr> post"
proof -
  have "split_on LF ((buffer d @ line) @ LF # post) = (buffer d @ line) # split_on LF post"
    using assms by (intro split_on_line) simp
  then show ?thesis
    using handle_lines_Cons[of parse "buffer d @ line" "butlast (split_on LF post)"]
    by (simp add: push_def Let_def split_on_not_Nil del: handle_lines.simps)
qed

lemma buffer_push_line_start:
  assumes "pre = [] \<or> last pre = LF"
  shows "buffer (push parse new_decoder pre) = []"
proof (cases "pre = []")
  case True
  then show ?thesis by (simp add: push_def new_decoder_def)
next
  case False
  with assms have "pre = butlast pre @ [LF]"
    by (metis append_butlast_last_id)
  then have "buffer (push parse new_decoder pre) = buffer (push parse new_decoder (butlast pre @ LF # []))"
    by simp
  then show ?thesis
    by (simp only: buffer_push_tail[of "[]"] list.set empty_iff not_False_eq_True)
qed

text \<open>
  A stream that holds a complete line \<open>line\<close> (it starts the stream or follows a line
  feed, and a line feed ends it): the decoder handles what comes before, then that line on
  its own, then what comes after.
\<close>

lemma stream_with_line:
  assumes "LF \<notin> set line" and "pre = [] \<or> last pre = LF"
    and "concat chunks = pre @ line @ LF # post"
  shows "foldl (push parse) new_decoder chunks =
           push parse ((push parse new_decoder pre)
             \<lparr>log := log (push parse new_decoder pre) @ handle_lines parse [line]\<rparr>) post"
proof -
  let ?d = "push parse new_decoder pre"
  have b: "buffer ?d = []"
    using assms(2) by (rule buffer_push_line_start)
  have "foldl (push parse) new_decoder chunks = push parse new_decoder (pre @ line @ LF # post)"
    using assms(3) by (simp add: foldl_push new_decoder_def)
  also have "\<dots> = push parse ?d (line @ LF # post)"
    by (simp add: push_push)
  also have "\<dots> = push parse \<lparr>buffer = [], log = log ?d @ handle_lines parse [buffer ?d @ line]\<rparr> post"
    using assms(1) b by (intro push_line) simp_all
  also have "\<lparr>buffer = [], log = log ?d @ handle_lines parse [buffer ?d @ line]\<rparr> =
             ?d\<lparr>log := log ?d @ handle_lines parse [line]\<rparr>"
    using b by simp
  finally show ?thesis .
qed

lemma push_log_update:
  "push parse (d\<lparr>log := log d @ es\<rparr>) c =
     (push parse d c)\<lparr>log := log d @ es @ handle_lines parse (butlast (split_on LF (buffer d @ c)))\<rparr>"
  by (simp add: push_def Let_def)

lemma log_push:
  "log (push parse d c) = log d @ handle_lines parse (butlast (split_on LF (buffer d @ c)))"
  by (simp add: push_def Let_def)

subsection \<open>The claims about the Line Decoder\<close>

text \<open>
  C4. Pushing \<open>{"a":1}\n{"a":\<close> and then \<open>2}\n\<close> into a new decoder hands exactly two
  messages to the handler, the parsed \<open>{"a":1}\<close> and then the parsed \<open>{"a":2}\<close>; after the
  first push the unterminated \<open>{"a":\<close> is what the buffer holds. In general the text after
  the last line feed of a chunk is the buffer after the push, the next push works on the
  buffer followed by the next chunk, and so any sequence of chunks gives the decoder that
  one push of their concatenation gives: a message cut by chunk boundaries is parsed once.
\<close>

theorem split_message_parsed_once:
  assumes "parse (js ''{\"a\":1}'') = Some ma" and "parse (js ''{\"a\":2}'') = Some mb"
    and "LF \<notin> set tail"
  shows "push parse (push parse new_decoder (js ''{\"a\":1}\<newline>{\"a\":'')) (js ''2}\<newline>'')
           = \<lparr>buffer = [], log = [Message ma, Message mb]\<rparr>
         \<and> buffer (push parse new_decoder (js ''{\"a\":1}\<newline>{\"a\":'')) = js ''{\"a\":''
         \<and> buffer (push parse d (chunk @ LF # tail)) = tail
         \<and> push parse (push parse d chunk) next_chunk = push parse d (chunk @ next_chunk)
         \<and> foldl (push parse) new_decoder chunks = push parse new_decoder (concat chunks)"
proof -
  have s1: "split_on LF (js ''{\"a\":1}\<newline>{\"a\":'') = [js ''{\"a\":1}'', js ''{\"a\":'']"
    by (simp add: js_def LF_def)
  have s2: "split_on LF (js ''{\"a\":'' @ js ''2}\<newline>'') = [js ''{\"a\":2}'', []]"
    by (simp add: js_def LF_def)
  have t: "trim (js ''{\"a\":1}'') \<noteq> []" "trim (js ''{\"a\":2}'') \<noteq> []"
    by (rule trim_not_Nil; simp add: js_def is_white_space_def)+
  have 1: "push parse (push parse new_decoder (js ''{\"a\":1}\<newline>{\"a\":'')) (js ''2}\<newline>'')
           = \<lparr>buffer = [], log = [Message ma, Message mb]\<rparr>"
    by (simp add: push_def new_decoder_def s1 s2 t assms(1,2))
  have 2: "buffer (push parse new_decoder (js ''{\"a\":1}\<newline>{\"a\":'')) = js ''{\"a\":''"
    by (simp add: push_def new_decoder_def s1)
  have 3: "foldl (push parse) new_decoder chunks = push parse new_decoder (concat chunks)"
    by (simp add: foldl_push new_decoder_def)
  have 4: "buffer (push parse d (chunk @ LF # tail)) = tail"
    using assms(3) by (rule buffer_push_tail)
  show ?thesis using 1 2 3 4 push_push by blast
qed

theorem split_message_parsed_once_witness:
  "push example_parse (push example_parse new_decoder (js ''{\"a\":1}\<newline>{\"a\":''))
       (js ''2}\<newline>'')
     = \<lparr>buffer = [], log = [Message 1, Message 2]\<rparr>
   \<and> buffer (push example_parse new_decoder (js ''{\"a\":1}\<newline>{\"a\":'')) = js ''{\"a\":''
   \<and> foldl (push example_parse) new_decoder
         [js ''{\"a\":1}\<newline>{\"'', js ''a\":'', js ''2}\<newline>{'']
     = push example_parse new_decoder (js ''{\"a\":1}\<newline>{\"a\":2}\<newline>{'')"
proof -
  have p: "example_parse (js ''{\"a\":1}'') = Some 1" "example_parse (js ''{\"a\":2}'') = Some 2"
    by (simp_all add: example_parse_def js_def)
  have t: "LF \<notin> set (js ''{\"a\":'')"
    by (simp add: js_def LF_def)
  have c: "concat [js ''{\"a\":1}\<newline>{\"'', js ''a\":'', js ''2}\<newline>{'']
             = js ''{\"a\":1}\<newline>{\"a\":2}\<newline>{''"
    by (simp add: js_def)
  show ?thesis
    using split_message_parsed_once[where parse = example_parse and ma = 1 and mb = 2
        and tail = "js ''{\"a\":''" and d = new_decoder and chunk = "js ''{\"a\":1}''"
        and chunks = "[js ''{\"a\":1}\<newline>{\"'', js ''a\":'', js ''2}\<newline>{'']", OF p t]
    by (simp only: c)
qed

text \<open>
  C5. A complete line \<open>bad\<close> that \<open>JSON.parse\<close> rejects, anywhere in a stream cut into
  chunks in any way: the decoder is the one that has handled the text before the line,
  written one error report, and gone on with the text after the line. So the line gives no
  message, the messages of the stream are those of the stream without the line, and so is
  the buffer.
\<close>

theorem malformed_line_skipped:
  assumes "parse bad = None" and "trim bad \<noteq> []" and "LF \<notin> set bad"
    and "pre = [] \<or> last pre = LF"
    and "concat chunks = pre @ bad @ LF # post"
  shows "foldl (push parse) new_decoder chunks =
           push parse ((push parse new_decoder pre)
             \<lparr>log := log (push parse new_decoder pre) @ [ParseError bad]\<rparr>) post
         \<and> messages (log (foldl (push parse) new_decoder chunks)) =
             messages (log (push parse new_decoder (pre @ post)))
         \<and> buffer (foldl (push parse) new_decoder chunks) =
             buffer (push parse new_decoder (pre @ post))"
proof -
  let ?d = "push parse new_decoder pre"
  have h: "handle_lines parse [bad] = [ParseError bad]"
    using assms(1,2) by simp
  have 1: "foldl (push parse) new_decoder chunks =
             push parse (?d\<lparr>log := log ?d @ [ParseError bad]\<rparr>) post"
    using stream_with_line[OF assms(3,4,5), of parse] by (simp only: h)
  have 2: "push parse new_decoder (pre @ post) = push parse ?d post"
    by (simp add: push_push)
  have 3: "messages (log (push parse (?d\<lparr>log := log ?d @ [ParseError bad]\<rparr>) post)) =
             messages (log (push parse ?d post))"
    by (simp add: push_log_update log_push messages_append)
  have 4: "buffer (push parse (?d\<lparr>log := log ?d @ [ParseError bad]\<rparr>) post) =
             buffer (push parse ?d post)"
    by (simp add: push_log_update)
  show ?thesis
    using 1 2 3 4 by simp
qed

text \<open>One malformed line, then one valid line, in two chunks that cut the valid line.\<close>

theorem malformed_line_skipped_witness:
  "foldl (push example_parse) new_decoder [js ''oops\<newline>{\"a\"'', js '':2}\<newline>'']
     = \<lparr>buffer = [], log = [ParseError (js ''oops''), Message 2]\<rparr>
   \<and> messages (log (foldl (push example_parse) new_decoder
         [js ''oops\<newline>{\"a\"'', js '':2}\<newline>''])) = [2]"
proof -
  have a: "example_parse (js ''oops'') = None"
    by (simp add: example_parse_def js_def)
  have b: "trim (js ''oops'') \<noteq> []"
    by (rule trim_not_Nil; simp add: js_def is_white_space_def)
  have c: "LF \<notin> set (js ''oops'')"
    by (simp add: js_def LF_def)
  have d: "concat [js ''oops\<newline>{\"a\"'', js '':2}\<newline>'']
             = [] @ js ''oops'' @ LF # js ''{\"a\":2}\<newline>''"
    by (simp add: js_def LF_def)
  have s: "split_on LF (js ''{\"a\":2}\<newline>'') = [js ''{\"a\":2}'', []]"
    by (simp add: js_def LF_def)
  have t: "trim (js ''{\"a\":2}'') \<noteq> []"
    by (rule trim_not_Nil; simp add: js_def is_white_space_def)
  have p: "example_parse (js ''{\"a\":2}'') = Some 2"
    by (simp add: example_parse_def js_def)
  have e: "push example_parse ((push example_parse new_decoder [])
             \<lparr>log := log (push example_parse new_decoder []) @ [ParseError (js ''oops'')]\<rparr>)
             (js ''{\"a\":2}\<newline>'')
           = \<lparr>buffer = [], log = [ParseError (js ''oops''), Message 2]\<rparr>"
    by (simp add: push_def new_decoder_def s t p)
  have f: "([] :: jsstring) = [] \<or> last [] = LF"
    by simp
  show ?thesis
    using malformed_line_skipped[where parse = example_parse and bad = "js ''oops''"
        and pre = "[]", OF a b c f d] e by simp
qed

text \<open>
  C9. A complete line that is empty or holds only white space, anywhere in a stream cut
  into chunks in any way: the decoder ends exactly as if the line were not in the stream.
  Its log has neither a message nor an error report for the line, whatever \<open>JSON.parse\<close>
  would have said about it.
\<close>

theorem blank_line_dropped:
  assumes "trim blank = []" and "LF \<notin> set blank"
    and "pre = [] \<or> last pre = LF"
    and "concat chunks = pre @ blank @ LF # post"
  shows "foldl (push parse) new_decoder chunks = push parse new_decoder (pre @ post)
         \<and> handle_lines parse [blank] = []"
proof -
  let ?d = "push parse new_decoder pre"
  have h: "handle_lines parse [blank] = []"
    using assms(1) by simp
  have "foldl (push parse) new_decoder chunks = push parse (?d\<lparr>log := log ?d @ []\<rparr>) post"
    using stream_with_line[OF assms(2,3,4), of parse] by (simp only: h)
  then show ?thesis
    using h by (simp add: push_push)
qed

text \<open>An empty line and a line of a tab, a space and a carriage return between two messages.\<close>

theorem blank_line_dropped_witness:
  "foldl (push example_parse) new_decoder
       [js ''{\"a\":1}\<newline>'', [9, 32], [13, 10], js ''{\"a\":2}\<newline>'']
     = push example_parse new_decoder (js ''{\"a\":1}\<newline>{\"a\":2}\<newline>'')
   \<and> foldl (push example_parse) new_decoder [[10]] = push example_parse new_decoder []
   \<and> handle_lines example_parse [[9, 32, 13]] = []"
proof -
  have a: "trim [9, 32, 13] = []" "trim [] = []"
    by (simp_all add: trim_def is_white_space_def)
  have b: "LF \<notin> set [9, 32, 13]" "LF \<notin> set []"
    by (simp_all add: LF_def)
  have c: "js ''{\"a\":1}\<newline>'' = [] \<or> last (js ''{\"a\":1}\<newline>'') = LF"
    by (simp add: js_def LF_def)
  have d: "concat [js ''{\"a\":1}\<newline>'', [9, 32], [13, 10], js ''{\"a\":2}\<newline>'']
             = js ''{\"a\":1}\<newline>'' @ [9, 32, 13] @ LF # js ''{\"a\":2}\<newline>''"
    by (simp add: LF_def)
  have e: "js ''{\"a\":1}\<newline>'' @ js ''{\"a\":2}\<newline>'' = js ''{\"a\":1}\<newline>{\"a\":2}\<newline>''"
    by (simp add: js_def)
  have f: "concat [[10]] = [] @ [] @ LF # []"
    by (simp add: LF_def)
  have g: "([] :: jsstring) = [] \<or> last [] = LF"
    by simp
  show ?thesis
    using blank_line_dropped[where parse = example_parse and blank = "[9, 32, 13]", OF a(1) b(1) c d]
      blank_line_dropped[where parse = example_parse and blank = "[]" and pre = "[]",
        OF a(2) b(2) g f]
    by (simp add: e)
qed

section \<open>Properties of the Remote Transport Factory\<close>













section \<open>Properties of the environment merge\<close>

lemma highest_layer_map_add:
  "(m ++ n) k = highest_layer [n, m] k"
  by (simp add: map_add_def split: option.splits)

text \<open>
  C8. A \<open>/stdio\<close> request whose two JSON texts parse (an absent or empty text counts as
  the empty object): the default environment exists, and the handler launches the child
  with the merged environment, in which every key has the value of the highest layer that
  has the key: the query's \<open>env\<close> first, then \<open>MCP_ENV_VARS\<close>, then
  \<open>getDefaultEnvironment()\<close>, then the proxy's own \<open>process.env\<close>. The launcher is any
  function: the child that it returns for that environment, and for no other, is the one
  behind the session's backing transport.
\<close>

theorem env_precedence:
  assumes "parse_or_empty json_parse MCP_ENV_VARS = Some vars"
    and "parse_or_empty json_parse (query req ''env'') = Some queryEnv"
    and "launch (query req ''command'') (query req ''args'')
           (process_env ++ (getDefaultEnvironment ++ vars) ++ queryEnv) (serverName req) = Inr child"
  shows "defaultEnvironment json_parse getDefaultEnvironment MCP_ENV_VARS
           = Some (getDefaultEnvironment ++ vars)
         \<and> stdio_env json_parse process_env (getDefaultEnvironment ++ vars) (query req ''env'')
           = Some (process_env ++ (getDefaultEnvironment ++ vars) ++ queryEnv)
         \<and> (process_env ++ (getDefaultEnvironment ++ vars) ++ queryEnv) k
           = highest_layer [queryEnv, vars, getDefaultEnvironment, process_env] k
         \<and> backingServerTransports
             (fst (stdio_get json_parse process_env (getDefaultEnvironment ++ vars) launch s req sid)) sid
           = Some (ChildProcessTransport child)
         \<and> snd (stdio_get json_parse process_env (getDefaultEnvironment ++ vars) launch s req sid)
           = EventStream"
proof -
  have d: "defaultEnvironment json_parse getDefaultEnvironment MCP_ENV_VARS
             = Some (getDefaultEnvironment ++ vars)"
    using assms(1) by (simp add: defaultEnvironment_def)
  have e: "stdio_env json_parse process_env (getDefaultEnvironment ++ vars) (query req ''env'')
             = Some (process_env ++ (getDefaultEnvironment ++ vars) ++ queryEnv)"
    using assms(2) by (simp add: stdio_env_def)
  have k: "(process_env ++ (getDefaultEnvironment ++ vars) ++ queryEnv) k
             = highest_layer [queryEnv, vars, getDefaultEnvironment, process_env] k"
    by (simp add: map_add_def split: option.splits)
  have g: "backingServerTransports
             (fst (stdio_get json_parse process_env (getDefaultEnvironment ++ vars) launch s req sid)) sid
           = Some (ChildProcessTransport child)"
    "snd (stdio_get json_parse process_env (getDefaultEnvironment ++ vars) launch s req sid)
           = EventStream"
    using e assms(3) by (simp_all add: stdio_get_def mcpProxy_def Let_def)
  show ?thesis
    using d e k g by simp
qed

text \<open>
  Four layers that all have \<open>HOME\<close>: the query's value wins; \<open>LANG\<close> comes from
  \<open>MCP_ENV_VARS\<close>, \<open>PATH\<close> from the SDK's defaults, \<open>TERM\<close> from the proxy's environment.
  The example launcher starts child 7 for exactly this environment.
\<close>

theorem env_precedence_witness:
  "backingServerTransports
     (fst (stdio_get example_json
        [''HOME'' \<mapsto> ''/p'', ''PATH'' \<mapsto> ''/usr/bin'', ''TERM'' \<mapsto> ''xterm'']
        (the (defaultEnvironment example_json [''HOME'' \<mapsto> ''/d'', ''PATH'' \<mapsto> ''/bin'']
                (Some ''{\"HOME\":\"/m\",\"LANG\":\"C\"}'')))
        example_launch empty_proxy example_stdio_request ''s1'')) ''s1''
     = Some (ChildProcessTransport 7)
   \<and> map_option (\<lambda>env. map env [''HOME'', ''LANG'', ''PATH'', ''TERM'', ''SHELL''])
       (stdio_env example_json
          [''HOME'' \<mapsto> ''/p'', ''PATH'' \<mapsto> ''/usr/bin'', ''TERM'' \<mapsto> ''xterm'']
          (the (defaultEnvironment example_json [''HOME'' \<mapsto> ''/d'', ''PATH'' \<mapsto> ''/bin'']
                  (Some ''{\"HOME\":\"/m\",\"LANG\":\"C\"}'')))
          (query example_stdio_request ''env''))
     = Some [Some ''/q'', Some ''C'', Some ''/bin'', Some ''xterm'', None]"
proof -
  let ?p = "[''HOME'' \<mapsto> ''/p'', ''PATH'' \<mapsto> ''/usr/bin'', ''TERM'' \<mapsto> ''xterm'']"
  let ?d = "[''HOME'' \<mapsto> ''/d'', ''PATH'' \<mapsto> ''/bin'']"
  let ?m = "[''HOME'' \<mapsto> ''/m'', ''LANG'' \<mapsto> ''C'']"
  let ?q = "[''HOME'' \<mapsto> ''/q'']"
  have a: "parse_or_empty example_json (Some ''{\"HOME\":\"/m\",\"LANG\":\"C\"}'') = Some ?m"
    by (simp add: parse_or_empty_def example_json_def)
  have b: "parse_or_empty example_json (query example_stdio_request ''env'') = Some ?q"
    by (simp add: parse_or_empty_def example_json_def example_stdio_request_def)
  have c: "example_launch (query example_stdio_request ''command'')
             (query example_stdio_request ''args'') (?p ++ (?d ++ ?m) ++ ?q)
             (serverName example_stdio_request) = Inr 7"
    by (simp add: example_launch_def example_stdio_request_def serverName_def map_add_def)
  note t = env_precedence[where json_parse = example_json and req = example_stdio_request
      and launch = example_launch and process_env = ?p and getDefaultEnvironment = ?d
      and vars = ?m and queryEnv = ?q and child = 7 and k = "''HOME''" and s = empty_proxy
      and sid = "''s1''", OF a b c]
  show ?thesis
    using t by (simp add: map_add_def)
qed

section \<open>Properties of the Port Allocator\<close>

text \<open>
  While the ports from \<open>p\<close> up to \<open>q\<close> are in use, the allocator probes each of them and
  goes on at \<open>q\<close>.
\<close>

lemma findAvailablePort_skips:
  assumes "\<forall>r. p \<le> r \<and> r < q \<longrightarrow> listen r = ListenError ''EADDRINUSE''" and "p \<le> q"
  shows "findAvailablePort listen p =
           Option.bind (findAvailablePort listen q)
             (\<lambda>(trace, result). Some (map Listen [p..<q] @ trace, result))"
  using assms
proof (induction "q - p" arbitrary: p)
  case 0
  then show ?case by (simp split: prod.splits cong: Option.bind_cong)
next
  case (Suc n)
  then have busy: "listen p = ListenError ''EADDRINUSE''" and lt: "p < q"
    by auto
  have "findAvailablePort listen (p + 1) =
          Option.bind (findAvailablePort listen q)
            (\<lambda>(trace, result). Some (map Listen [p + 1..<q] @ trace, result))"
    using Suc.prems Suc.hyps(2) by (intro Suc.hyps(1)) auto
  moreover have "[p..<q] = p # [p + 1..<q]"
    using lt by (simp add: upt_conv_Cons)
  ultimately show ?case
    by (subst findAvailablePort.simps) (simp add: busy split: prod.splits option.splits bind_split)
qed

lemma findAvailablePort_found:
  assumes "\<forall>r. p \<le> r \<and> r < q \<longrightarrow> listen r = ListenError ''EADDRINUSE''" and "p \<le> q"
    and "listen q = Listening port"
  shows "findAvailablePort listen p = Some (map Listen [p..<Suc q] @ [Close q], Resolved port)"
proof -
  have "findAvailablePort listen q = Some ([Listen q, Close q], Resolved port)"
    by (subst findAvailablePort.simps) (simp add: assms(3))
  then show ?thesis
    using findAvailablePort_skips[OF assms(1,2)] assms(2) by simp
qed

lemma findAvailablePort_failed:
  assumes "\<forall>r. p \<le> r \<and> r < q \<longrightarrow> listen r = ListenError ''EADDRINUSE''" and "p \<le> q"
    and "listen q = ListenError code" and "code \<noteq> ''EADDRINUSE''"
  shows "findAvailablePort listen p = Some (map Listen [p..<Suc q], Rejected code)"
proof -
  have "findAvailablePort listen q = Some ([Listen q], Rejected code)"
    by (subst findAvailablePort.simps) (simp add: assms(3,4))
  then show ?thesis
    using findAvailablePort_skips[OF assms(1,2)] assms(2) by simp
qed

text \<open>
  C7. Let the ports from the preferred port \<open>p\<close> up to \<open>q\<close> fail with EADDRINUSE. If
  \<open>q\<close> binds (and the listener reports the port it was asked for), the allocator has
  probed \<open>p\<close>, \<open>p + 1\<close>, ... \<open>q\<close> in this order, has closed the listener on \<open>q\<close>, and
  resolves with \<open>q\<close>, the smallest port from \<open>p\<close> on that binds; the server then listens
  on \<open>q\<close> if the port is still free. If \<open>q\<close> fails with any other code, the promise is
  rejected with that code after the same probes, and the process exits with code 1.
\<close>

theorem port_allocator:
  assumes "\<forall>r. p \<le> r \<and> r < q \<longrightarrow> listen r = ListenError ''EADDRINUSE''" and "p \<le> q"
  shows "(listen q = Listening q \<longrightarrow>
            findAvailablePort listen p = Some (map Listen [p..<Suc q] @ [Close q], Resolved q)
            \<and> (app_listen q = Listening q \<longrightarrow>
                 startServer listen app_listen p
                   = Some (map Listen [p..<Suc q] @ [Close q], ListeningOn q)))
         \<and> (listen q = ListenError code \<and> code \<noteq> ''EADDRINUSE'' \<longrightarrow>
            findAvailablePort listen p = Some (map Listen [p..<Suc q], Rejected code)
            \<and> startServer listen app_listen p = Some (map Listen [p..<Suc q], Exit 1))"
  using findAvailablePort_found[OF assms, of q] findAvailablePort_failed[OF assms, of code]
  by (simp add: startServer_def)

theorem port_allocator_witness:
  "findAvailablePort example_listen 6277
     = Some ([Listen 6277, Listen 6278, Listen 6279, Close 6279], Resolved 6279)
   \<and> startServer example_listen example_listen 6277
     = Some ([Listen 6277, Listen 6278, Listen 6279, Close 6279], ListeningOn 6279)
   \<and> findAvailablePort example_listen_denied 6277
     = Some ([Listen 6277, Listen 6278, Listen 6279], Rejected ''EACCES'')
   \<and> startServer example_listen_denied example_listen 6277
     = Some ([Listen 6277, Listen 6278, Listen 6279], Exit 1)"
proof -
  have a: "\<forall>r. 6277 \<le> r \<and> r < 6279 \<longrightarrow> example_listen r = ListenError ''EADDRINUSE''"
    "\<forall>r. 6277 \<le> r \<and> r < 6279 \<longrightarrow> example_listen_denied r = ListenError ''EADDRINUSE''"
    by (auto simp: example_listen_def example_listen_denied_def)
  have b: "(6277::nat) \<le> 6279"
    by simp
  have c: "example_listen 6279 = Listening 6279"
    "example_listen_denied 6279 = ListenError ''EACCES''"
    by (simp_all add: example_listen_def example_listen_denied_def)
  have u: "[6277..<Suc 6279] = [6277, 6278, 6279]"
    by (simp add: upt_rec)
  show ?thesis
    using port_allocator[OF a(1) b, of example_listen "''x''"]
      port_allocator[OF a(2) b, of example_listen "''EACCES''"] c
    by (simp add: u)
qed

section \<open>Properties of the session registry\<close>

subsection \<open>What the handlers do to the registry\<close>

lemma createTransport_example:
  "createTransport accepting_sdk example_request
     = Inr (SSEClientTransport ''http://agent/sse''
         [(''Accept'', Str ''text/event-stream''), (''authorization'', Str ''Bearer t'')])"
  "createTransport unauthorized_sdk example_request = Inl (SseError 401)"
  "createTransport refusing_sdk example_request = Inl (Error ''ECONNREFUSED'')"
  "createTransport accepting_sdk example_mcp_request
     = Inr (StreamableHTTPClientTransport ''http://agent/mcp''
         [(''Accept'', Str ''text/event-stream, application/json''),
          (''authorization'', Str ''Bearer t'')])"
  by (simp_all add: createTransport_def example_request_def example_mcp_request_def
      accepting_sdk_def unauthorized_sdk_def refusing_sdk_def sse_headers_def
      streamable_http_headers_def SSE_HEADERS_PASSTHROUGH_def
      STREAMABLE_HTTP_HEADERS_PASSTHROUGH_def last_or_value_def)

lemma sse_get_success:
  assumes "createTransport env req = Inr b"
  shows "webAppTransports (fst (sse_get env s req sid)) sid = Some (SSEServerTransport sid)"
    and "backingServerTransports (fst (sse_get env s req sid)) sid = Some b"
    and "forwarding (fst (sse_get env s req sid)) sid"
    and "is_open (fst (sse_get env s req sid)) sid Client"
    and "is_open (fst (sse_get env s req sid)) sid Agent"
    and "snd (sse_get env s req sid) = EventStream"
  using assms by (simp_all add: sse_get_def mcpProxy_def Let_def)

lemma sse_get_failure:
  assumes "createTransport env req = Inl e"
  shows "webAppTransports (fst (sse_get env s req sid)) sid = Some (SSEServerTransport sid)"
    and "backingServerTransports (fst (sse_get env s req sid)) = backingServerTransports s"
    and "onclose (fst (sse_get env s req sid)) = onclose s"
    and "forwarding (fst (sse_get env s req sid)) = forwarding s"
    and "snd (sse_get env s req sid) = (if e = SseError 401 then Status 401 else NothingSent)"
  using assms by (simp_all add: sse_get_def Let_def split: js_error.splits)

lemma stdio_get_failure:
  assumes "stdio_env json_parse process_env default_env (query req ''env'') = None
           \<or> (\<exists>env e. stdio_env json_parse process_env default_env (query req ''env'') = Some env
                 \<and> launch (query req ''command'') (query req ''args'') env (serverName req) = Inl e)"
  shows "snd (stdio_get json_parse process_env default_env launch s req sid) = UnhandledRejection"
  using assms by (auto simp: stdio_get_def Let_def)

text \<open>
  The streamable-HTTP route registers a pair in one step and nothing when the backing
  transport cannot be built: it keeps the registry paired.
\<close>

lemma mcp_post_new_paired: "paired s \<Longrightarrow> paired (fst (mcp_post_new env initialized s req))"
  by (simp add: paired_def mcp_post_new_def mcpProxy_def Let_def
      split: option.splits sum.splits js_error.splits)

lemma mcp_post_existing_state: "fst (mcp_post_existing s sessionId) = s"
  by (simp add: mcp_post_existing_def split: option.splits)

lemma mcp_post_paired: "paired s \<Longrightarrow> paired (fst (mcp_post env initialized s req))"
  by (simp add: mcp_post_def mcp_post_new_paired mcp_post_existing_state
      split: option.splits header_value.splits)

lemma mcp_post_unauthorized:
  assumes "createTransport env req = Inl (SseError 401)"
    and "headers req ''mcp-session-id'' = None"
  shows "mcp_post env initialized s req = (s, Status 401)"
  using assms by (simp add: mcp_post_def mcp_post_new_def)

lemma sse_get_success_paired:
  "paired s \<Longrightarrow> createTransport env req = Inr b \<Longrightarrow> paired (fst (sse_get env s req sid))"
  by (simp add: paired_def sse_get_def mcpProxy_def Let_def)

text \<open>
  A new session on \<open>/mcp\<close>: the pair is registered, both transports are open, and the
  handler that the browser-facing transport holds is the closure assigned at line 201,
  whatever the pump had put there at line 196.
\<close>

lemma mcp_post_registered:
  assumes "createTransport env req = Inr b" and "headers req ''mcp-session-id'' = None"
  shows "webAppTransports (fst (mcp_post env (Some sid) s req)) sid
           = Some StreamableHTTPServerTransport"
    and "backingServerTransports (fst (mcp_post env (Some sid) s req)) sid = Some b"
    and "onclose (fst (mcp_post env (Some sid) s req)) sid Client = Some DeleteBoth"
    and "is_open (fst (mcp_post env (Some sid) s req)) sid Client"
    and "is_open (fst (mcp_post env (Some sid) s req)) sid Agent"
    and "close_calls (fst (mcp_post env (Some sid) s req)) = close_calls s"
  using assms by (simp_all add: mcp_post_def mcp_post_new_def mcpProxy_def Let_def)

text \<open>
  When the browser-facing transport holds the deleting closure and closes, the two entries
  go and nothing else happens: no \<open>close()\<close> is called, and the backing transport is as
  open as it was.
\<close>

lemma run_onclose_None: "onclose s sid sd = None \<Longrightarrow> run_onclose sd sid s = s"
  by (subst run_onclose.simps) simp

lemma run_onclose_DeleteBoth:
  "onclose s sid sd = Some DeleteBoth \<Longrightarrow> run_onclose sd sid s = delete_both sid s"
  by (subst run_onclose.simps) simp

lemma closure_closes_nothing:
  assumes "onclose s sid Client = Some DeleteBoth"
  shows "webAppTransports (transport_closed Client sid s) sid = None"
    and "backingServerTransports (transport_closed Client sid s) sid = None"
    and "close_calls (transport_closed Client sid s) = close_calls s"
    and "is_open (transport_closed Client sid s) sid Agent = is_open s sid Agent"
  using assms by (simp_all add: transport_closed_def run_onclose_DeleteBoth delete_both_def)

subsection \<open>The pump's handler\<close>

text \<open>
  These two rest on the pump as modelled from the spec. Where the browser-facing transport
  holds the closure and the backing transport the pump's handler (the order of \<open>/mcp\<close>),
  a close of the backing transport closes the browser-facing one, and that runs the
  closure. Where both hold the pump's handler (the order of \<open>/sse\<close> and \<open>/stdio\<close>,
  which assign their closure before the pump is called), a close of the browser-facing
  transport closes the backing one and leaves the registry as it is.
\<close>

lemma pump_closes_browser_side:
  assumes "onclose s sid Agent = Some PumpHandler" and "onclose s sid Client = Some DeleteBoth"
    and "forwarding s sid" and "is_open s sid Client"
  shows "webAppTransports (transport_closed Agent sid s) sid = None"
    and "backingServerTransports (transport_closed Agent sid s) sid = None"
    and "close_calls (transport_closed Agent sid s) = close_calls s @ [(sid, Client)]"
  using assms
  by (simp_all add: transport_closed_def other_side_def delete_both_def
      run_onclose.simps[of Agent] close_transport.simps[of Client] run_onclose.simps[of Client])

lemma pump_displaces_closure:
  assumes "onclose s sid Client = Some PumpHandler" and "onclose s sid Agent = Some PumpHandler"
    and "forwarding s sid" and "is_open s sid Agent"
  shows "webAppTransports (transport_closed Client sid s) = webAppTransports s"
    and "backingServerTransports (transport_closed Client sid s) = backingServerTransports s"
    and "close_calls (transport_closed Client sid s) = close_calls s @ [(sid, Agent)]"
  using assms
  by (simp_all add: transport_closed_def other_side_def
      run_onclose.simps[of Agent] close_transport.simps[of Agent] run_onclose.simps[of Client])

subsection \<open>The claims about the registry\<close>

text \<open>
  C1 fails on \<open>/sse\<close>: the browser-facing transport is put into \<open>webAppTransports\<close>
  before the backing transport is built, and no path removes it when the building fails.
  Here the agent refuses the connection: the handler has returned, the session id is in
  \<open>webAppTransports\<close> and not in \<open>backingServerTransports\<close>, the registry is not paired,
  and no closure has been assigned that would remove the entry when the browser goes away.
\<close>

theorem failed_sse_leaves_half_pair:
  "paired empty_proxy
   \<and> webAppTransports (fst (sse_get refusing_sdk empty_proxy example_request ''s1'')) ''s1''
       = Some (SSEServerTransport ''s1'')
   \<and> backingServerTransports (fst (sse_get refusing_sdk empty_proxy example_request ''s1'')) ''s1''
       = None
   \<and> \<not> paired (fst (sse_get refusing_sdk empty_proxy example_request ''s1''))
   \<and> run_onclose Client ''s1'' (fst (sse_get refusing_sdk empty_proxy example_request ''s1''))
       = fst (sse_get refusing_sdk empty_proxy example_request ''s1'')"
proof -
  let ?s = "fst (sse_get refusing_sdk empty_proxy example_request ''s1'')"
  note f = sse_get_failure[OF createTransport_example(3), of empty_proxy "''s1''"]
  have w: "webAppTransports ?s ''s1'' = Some (SSEServerTransport ''s1'')"
    by (rule f(1))
  have b: "backingServerTransports ?s ''s1'' = None"
    unfolding f(2) by (simp add: empty_proxy_def)
  have "''s1'' \<in> dom (webAppTransports ?s)" and "''s1'' \<notin> dom (backingServerTransports ?s)"
    using w b by auto
  then have n: "\<not> paired ?s"
    unfolding paired_def by blast
  have "onclose ?s ''s1'' Client = None"
    unfolding f(3) by (simp add: empty_proxy_def)
  then have r: "run_onclose Client ''s1'' ?s = ?s"
    by (rule run_onclose_None)
  have e: "paired empty_proxy"
    by (simp add: paired_def empty_proxy_def)
  show ?thesis
    using e w b n r by blast
qed

text \<open>
  C2 fails on \<open>/sse\<close> for the same reason: when the agent answers 401 the handler does
  answer 401, after one attempt, but the session id stays in \<open>webAppTransports\<close>. On
  \<open>/mcp\<close> the same rejection leaves the registry as it was.
\<close>

theorem unauthorized_sse_keeps_entry:
  "createTransport unauthorized_sdk example_request = Inl (SseError 401)
   \<and> snd (sse_get unauthorized_sdk empty_proxy example_request ''s1'') = Status 401
   \<and> webAppTransports (fst (sse_get unauthorized_sdk empty_proxy example_request ''s1'')) ''s1''
       = Some (SSEServerTransport ''s1'')
   \<and> backingServerTransports (fst (sse_get unauthorized_sdk empty_proxy example_request ''s1'')) ''s1''
       = None
   \<and> mcp_post unauthorized_sdk (Some ''s1'') empty_proxy example_request
       = (empty_proxy, Status 401)"
proof -
  note f = sse_get_failure[OF createTransport_example(2), of empty_proxy "''s1''"]
  have h: "headers example_request ''mcp-session-id'' = None"
    by (simp add: example_request_def)
  have b: "backingServerTransports
             (fst (sse_get unauthorized_sdk empty_proxy example_request ''s1'')) ''s1'' = None"
    unfolding f(2) by (simp add: empty_proxy_def)
  show ?thesis
    using f(1,5) b mcp_post_unauthorized[OF createTransport_example(2) h]
    by (simp add: createTransport_example(2))
qed

text \<open>
  C3 fails on \<open>/mcp\<close>. A session opened by \<open>POST /mcp\<close> is a registered pair with both
  transports open. When its browser-facing transport closes, the handler that runs is the
  closure of lines 201 to 207: the two entries are removed together, but
  \<open>backingServerTransport.close()\<close> is not called (no \<open>close()\<close> call is made at all)
  and the backing transport stays open. The closure of \<open>/stdio\<close> (line 309) makes that
  call.
\<close>

theorem mcp_close_leaves_agent_open:
  "webAppTransports (fst (mcp_post accepting_sdk (Some ''s1'') empty_proxy example_mcp_request)) ''s1''
     = Some StreamableHTTPServerTransport
   \<and> backingServerTransports
       (fst (mcp_post accepting_sdk (Some ''s1'') empty_proxy example_mcp_request)) ''s1''
     = Some (StreamableHTTPClientTransport ''http://agent/mcp''
         [(''Accept'', Str ''text/event-stream, application/json''),
          (''authorization'', Str ''Bearer t'')])
   \<and> is_open (fst (mcp_post accepting_sdk (Some ''s1'') empty_proxy example_mcp_request)) ''s1'' Agent
   \<and> webAppTransports (transport_closed Client ''s1''
       (fst (mcp_post accepting_sdk (Some ''s1'') empty_proxy example_mcp_request))) ''s1'' = None
   \<and> backingServerTransports (transport_closed Client ''s1''
       (fst (mcp_post accepting_sdk (Some ''s1'') empty_proxy example_mcp_request))) ''s1'' = None
   \<and> close_calls (transport_closed Client ''s1''
       (fst (mcp_post accepting_sdk (Some ''s1'') empty_proxy example_mcp_request))) = []
   \<and> is_open (transport_closed Client ''s1''
       (fst (mcp_post accepting_sdk (Some ''s1'') empty_proxy example_mcp_request))) ''s1'' Agent"
proof -
  have h: "headers example_mcp_request ''mcp-session-id'' = None"
    by (simp add: example_mcp_request_def)
  note r = mcp_post_registered[OF createTransport_example(4) h, of "''s1''" empty_proxy]
  note c = closure_closes_nothing[OF r(3)]
  have e: "close_calls empty_proxy = []"
    by (simp add: empty_proxy_def)
  show ?thesis
    using r(1,2,5) c by (simp add: r(6) e)
qed

end
